theory Spec2Isabelle
  imports Main "HOL-Library.AList"
begin

section \<open>The chat server of \<^verbatim>\<open>src/chat_server.py\<close>\<close>

text \<open>
  The theory embeds class \<^verbatim>\<open>ChatServer\<close>: the registry \<^verbatim>\<open>self.clients\<close>, the
  per-connection handler \<^verbatim>\<open>handle_client\<close>, the command dispatcher \<^verbatim>\<open>handle_command\<close>,
  \<^verbatim>\<open>broadcast\<close> and \<^verbatim>\<open>encode_message\<close>. Sockets, the clock and the scheduling of
  threads are the environment; they appear as explicit parts of the state or as inputs.
  Console output (\<^verbatim>\<open>print\<close>) is not modelled.
\<close>

subsection \<open>Python strings\<close>

text \<open>
  A Python \<^verbatim>\<open>str\<close> is a list of code points. The model uses \<^typ>\<open>string\<close>, one
  \<^typ>\<open>char\<close> per code point, which covers the code points below 256. On that range
  \<^verbatim>\<open>str.isspace\<close>, \<^verbatim>\<open>str.lower\<close> and \<^verbatim>\<open>str.isprintable\<close> are as below.
\<close>

definition isspace :: "char \<Rightarrow> bool" where
  "isspace c \<longleftrightarrow> (of_char c :: nat) \<in> {9, 10, 11, 12, 13, 28, 29, 30, 31, 32, 133, 160}"

definition lower_char :: "char \<Rightarrow> char" where
  "lower_char c =
     (let n = (of_char c :: nat) in
      if (65 \<le> n \<and> n \<le> 90) \<or> (192 \<le> n \<and> n \<le> 222 \<and> n \<noteq> 215)
      then char_of (n + 32) else c)"

definition lower :: "string \<Rightarrow> string" where
  "lower s = map lower_char s"

definition strip :: "string \<Rightarrow> string" where
  "strip s = rev (dropWhile isspace (rev (dropWhile isspace s)))"

text \<open>\<^verbatim>\<open>s.split()\<close>: the maximal runs of non-whitespace characters, in order.\<close>

fun split_from :: "string \<Rightarrow> string \<Rightarrow> string list" where
  "split_from cur [] = (if cur = [] then [] else [rev cur])"
| "split_from cur (c # cs) =
     (if isspace c
      then (if cur = [] then split_from [] cs else rev cur # split_from [] cs)
      else split_from (c # cur) cs)"

definition split :: "string \<Rightarrow> string list" where
  "split s = split_from [] s"

fun join :: "string \<Rightarrow> string list \<Rightarrow> string" where
  "join sep [] = []"
| "join sep [x] = x"
| "join sep (x # y # ys) = x @ sep @ join sep (y # ys)"

definition startswith :: "string \<Rightarrow> string \<Rightarrow> bool" where
  "startswith s p \<longleftrightarrow> take (length p) s = p"

definition hexdigit :: "nat \<Rightarrow> char" where
  "hexdigit n = (if n < 10 then char_of (48 + n) else char_of (87 + n))"

definition isprintable :: "char \<Rightarrow> bool" where
  "isprintable c \<longleftrightarrow>
     (let n = (of_char c :: nat) in (32 \<le> n \<and> n \<le> 126) \<or> (161 \<le> n \<and> n \<noteq> 173))"

text \<open>\<^verbatim>\<open>repr\<close> of a \<^verbatim>\<open>str\<close> and of a list of them, as an f-string renders a list.\<close>

definition repr_char :: "char \<Rightarrow> char \<Rightarrow> string" where
  "repr_char q c =
     (let n = (of_char c :: nat) in
      if c = q \<or> c = CHR 0x5C then [CHR 0x5C, c]
      else if n = 9 then [CHR 0x5C, CHR ''t'']
      else if n = 10 then [CHR 0x5C, CHR ''n'']
      else if n = 13 then [CHR 0x5C, CHR ''r'']
      else if isprintable c then [c]
      else [CHR 0x5C, CHR ''x'', hexdigit (n div 16), hexdigit (n mod 16)])"

definition repr_str :: "string \<Rightarrow> string" where
  "repr_str s =
     (let q = (if CHR 0x27 \<in> set s \<and> CHR 0x22 \<notin> set s then CHR 0x22 else CHR 0x27)
      in [q] @ concat (map (repr_char q) s) @ [q])"

definition repr_list :: "string list \<Rightarrow> string" where
  "repr_list xs = ''['' @ join '', '' (map repr_str xs) @ '']''"

subsection \<open>The clock and the wire codec\<close>

text \<open>
  \<^verbatim>\<open>datetime.now()\<close> is an input from the environment: a reading of the server-local
  clock. \<^verbatim>\<open>get_timestamp\<close> formats it with \<^verbatim>\<open>%H:%M:%S\<close>.
\<close>

record datetime =
  year :: nat
  month :: nat
  day :: nat
  hour :: nat
  minute :: nat
  second :: nat

definition digit :: "nat \<Rightarrow> char" where
  "digit n = char_of (48 + n mod 10)"

definition two_digits :: "nat \<Rightarrow> string" where
  "two_digits n = [digit (n div 10), digit n]"

definition four_digits :: "nat \<Rightarrow> string" where
  "four_digits n = [digit (n div 1000), digit (n div 100), digit (n div 10), digit n]"

definition get_timestamp :: "datetime \<Rightarrow> string" where
  "get_timestamp now = two_digits (hour now) @ '':'' @ two_digits (minute now) @ '':''
     @ two_digits (second now)"

text \<open>\<^verbatim>\<open>strftime("%Y-%m-%d %H:%M:%S")\<close>, for the years 1000 to 9999.\<close>

definition strftime_full :: "datetime \<Rightarrow> string" where
  "strftime_full now = four_digits (year now) @ ''-'' @ two_digits (month now) @ ''-''
     @ two_digits (day now) @ '' '' @ get_timestamp now"

text \<open>
  \<^verbatim>\<open>json.dumps\<close> of a \<^verbatim>\<open>str\<close>, with the default \<^verbatim>\<open>ensure_ascii=True\<close>: the
  characters from space to tilde stand for themselves, except the quote and the backslash;
  the others are escaped.
\<close>

definition json_escape_char :: "char \<Rightarrow> string" where
  "json_escape_char c =
     (let n = (of_char c :: nat) in
      if c = CHR 0x22 then [CHR 0x5C, CHR 0x22]
      else if c = CHR 0x5C then [CHR 0x5C, CHR 0x5C]
      else if n = 10 then [CHR 0x5C, CHR ''n'']
      else if n = 13 then [CHR 0x5C, CHR ''r'']
      else if n = 9 then [CHR 0x5C, CHR ''t'']
      else if n = 8 then [CHR 0x5C, CHR ''b'']
      else if n = 12 then [CHR 0x5C, CHR ''f'']
      else if 32 \<le> n \<and> n \<le> 126 then [c]
      else [CHR 0x5C, CHR ''u'', CHR ''0'', CHR ''0'', hexdigit (n div 16), hexdigit (n mod 16)])"

definition json_string :: "string \<Rightarrow> string" where
  "json_string s = [CHR 0x22] @ concat (map json_escape_char s) @ [CHR 0x22]"

text \<open>\<^verbatim>\<open>json.dumps\<close> of a dict of strings, with the default separators.\<close>

definition json_dumps :: "(string \<times> string) list \<Rightarrow> string" where
  "json_dumps d =
     ''{'' @ join '', '' (map (\<lambda>(k, v). json_string k @ '': '' @ json_string v) d) @ ''}''"

text \<open>
  \<^verbatim>\<open>encode_message\<close> reads the clock through \<^verbatim>\<open>self.get_timestamp()\<close>; the reading
  is the first argument here. The result of \<^verbatim>\<open>json.dumps\<close> is ASCII, so its UTF-8
  encoding is the same sequence of characters.
\<close>

definition encode_message :: "datetime \<Rightarrow> string \<Rightarrow> string \<Rightarrow> string \<Rightarrow> string" where
  "encode_message now sender message msg_type =
     (let message_data =
        [(''timestamp'', get_timestamp now),
         (''sender'', sender),
         (''message'', message),
         (''type'', msg_type)]
      in json_dumps message_data)"

subsection \<open>The server state and the sockets\<close>

type_synonym conn = nat
type_synonym address = "string \<times> nat"

record client_info =
  username :: string
  address :: address

text \<open>
  An event is what one \<^verbatim>\<open>conn.send(self.encode_message(sender, message, msg_type))\<close>
  puts on the wire: the three arguments are recorded, and the bytes are
  \<^const>\<open>encode_message\<close> of them at the clock reading of that call.
\<close>

record event =
  ev_sender :: string
  ev_message :: string
  ev_type :: string

definition event :: "string \<Rightarrow> string \<Rightarrow> string \<Rightarrow> event" where
  "event sender message msg_type =
     \<lparr>ev_sender = sender, ev_message = message, ev_type = msg_type\<rparr>"

text \<open>
  \<open>clients\<close> is the dict \<^verbatim>\<open>self.clients\<close> in insertion order and \<open>running\<close> the flag
  \<^verbatim>\<open>self.running\<close>. The rest is the environment: \<open>sent\<close> logs every send that
  returned, in order; a send on a connection in \<open>broken\<close> (the peer is gone) or in
  \<open>closed\<close> (the server closed the socket) raises; \<open>now\<close> is the clock reading.
\<close>

record state =
  clients :: "(conn \<times> client_info) list"
  running :: bool
  sent :: "(conn \<times> event) list"
  broken :: "conn set"
  closed :: "conn set"
  now :: datetime

datatype error = OSError | UnicodeDecodeError | KeyError | IndexError

text \<open>
  An operation that may raise returns \<open>Inl (e, st)\<close> for the exception \<open>e\<close> raised in
  state \<open>st\<close>, and \<open>Inr st\<close> when it returns normally.
\<close>

type_synonym result = "error \<times> state + state"

definition fails :: "state \<Rightarrow> conn \<Rightarrow> bool" where
  "fails st c \<longleftrightarrow> c \<in> broken st \<or> c \<in> closed st"

definition send :: "state \<Rightarrow> conn \<Rightarrow> event \<Rightarrow> result" where
  "send st c ev =
     (if fails st c then Inl (OSError, st) else Inr (st\<lparr>sent := sent st @ [(c, ev)]\<rparr>))"

definition close :: "state \<Rightarrow> conn \<Rightarrow> state" where
  "close st c = st\<lparr>closed := insert c (closed st)\<rparr>"

text \<open>The events that connection \<open>c\<close> has been sent.\<close>

definition received :: "state \<Rightarrow> conn \<Rightarrow> event list" where
  "received st c = map snd (filter (\<lambda>p. fst p = c) (sent st))"

subsection \<open>The registry\<close>

text \<open>\<^verbatim>\<open>del d[k]\<close> raises \<^verbatim>\<open>KeyError\<close> when the key is absent.\<close>

definition dict_del :: "('k \<times> 'v) list \<Rightarrow> 'k \<Rightarrow> error + ('k \<times> 'v) list" where
  "dict_del d k = (if k \<in> set (map fst d) then Inr (AList.delete k d) else Inl KeyError)"

text \<open>
  The removal of lines 125-126 and 196-197:
  \<^verbatim>\<open>if conn in self.clients: del self.clients[conn]\<close>.
\<close>

definition remove_client :: "state \<Rightarrow> conn \<Rightarrow> result" where
  "remove_client st conn =
     (if conn \<in> set (map fst (clients st))
      then (case dict_del (clients st) conn of
              Inl e \<Rightarrow> Inl (e, st)
            | Inr d \<Rightarrow> Inr (st\<lparr>clients := d\<rparr>))
      else Inr st)"

definition get_online_users :: "state \<Rightarrow> string list" where
  "get_online_users st = map (\<lambda>info. username info) (map snd (clients st))"

subsection \<open>Broadcast\<close>

text \<open>
  The loop of \<^verbatim>\<open>broadcast\<close> runs over the snapshot \<^verbatim>\<open>list(self.clients.keys())\<close>;
  the bare \<^verbatim>\<open>except\<close> catches the failure of a send and removes that client.
\<close>

fun broadcast_loop :: "conn list \<Rightarrow> event \<Rightarrow> conn option \<Rightarrow> state \<Rightarrow> result" where
  "broadcast_loop [] ev exclude st = Inr st"
| "broadcast_loop (client_conn # rest) ev exclude st =
     (if Some client_conn \<noteq> exclude then
        (case send st client_conn ev of
           Inr st' \<Rightarrow> broadcast_loop rest ev exclude st'
         | Inl (e, st') \<Rightarrow>
             (case remove_client st' client_conn of
                Inl x \<Rightarrow> Inl x
              | Inr st'' \<Rightarrow> broadcast_loop rest ev exclude st''))
      else broadcast_loop rest ev exclude st)"

definition broadcast :: "state \<Rightarrow> string \<Rightarrow> string \<Rightarrow> conn option \<Rightarrow> string \<Rightarrow> result" where
  "broadcast st message sender exclude msg_type =
     broadcast_loop (map fst (clients st)) (event sender message msg_type) exclude st"

subsection \<open>Commands\<close>

definition nl :: string where
  "nl = [CHR 0x0A]"

definition indent :: string where
  "indent = replicate 12 (CHR '' '')"

definition help_text :: string where
  "help_text =
     nl @ indent @ ''Available Commands:''
     @ nl @ indent @ ''/help - Show this help message''
     @ nl @ indent @ ''/users - List online users''
     @ nl @ indent @ ''/whisper <username> <message> - Send private message''
     @ nl @ indent @ ''/quit - Disconnect from server''
     @ nl @ indent @ ''/time - Show server time''
     @ nl @ indent"

text \<open>The search of lines 159-164: the first client, in dict order, with that username.\<close>

fun find_target :: "(conn \<times> client_info) list \<Rightarrow> string \<Rightarrow> conn option" where
  "find_target [] target_user = None"
| "find_target ((client_conn, info) # rest) target_user =
     (if username info = target_user then Some client_conn else find_target rest target_user)"

text \<open>
  The \<^verbatim>\<open>/whisper\<close> branch, lines 155-172. The two sends are outside any
  \<^verbatim>\<open>try\<close>: a failure of either leaves \<^verbatim>\<open>handle_command\<close> as an exception.
\<close>

definition whisper :: "state \<Rightarrow> conn \<Rightarrow> string \<Rightarrow> string \<Rightarrow> string \<Rightarrow> result" where
  "whisper st conn name target_user whisper_msg =
     (let not_found =
        event ''Server''
          (''User '' @ [CHR 0x27] @ target_user @ [CHR 0x27] @ '' not found or is yourself'')
          ''error''
      in case find_target (clients st) target_user of
           None \<Rightarrow> send st conn not_found
         | Some target_conn \<Rightarrow>
             if target_conn \<noteq> conn then
               (case send st target_conn
                       (event (''[Whisper from '' @ name @ '']'') whisper_msg ''whisper'') of
                  Inl x \<Rightarrow> Inl x
                | Inr st' \<Rightarrow>
                    send st' conn
                      (event ''Server'' (''Whisper sent to '' @ target_user) ''system''))
             else send st conn not_found)"

definition handle_command :: "state \<Rightarrow> conn \<Rightarrow> string \<Rightarrow> string \<Rightarrow> result" where
  "handle_command st conn name command =
     (let parts = split command in
      case parts of
        [] \<Rightarrow> Inl (IndexError, st)
      | p # ps \<Rightarrow>
          (let cmd = lower p in
           if cmd = ''/help'' then send st conn (event ''Server'' help_text ''system'')
           else if cmd = ''/users'' then
             send st conn
               (event ''Server'' (''Online users: '' @ repr_list (get_online_users st))
                  ''system'')
           else if cmd = ''/whisper'' \<and> 3 \<le> length parts then
             whisper st conn name (parts ! 1) (join '' '' (drop 2 parts))
           else if cmd = ''/time'' then
             send st conn
               (event ''Server'' (''Server time: '' @ strftime_full (now st)) ''system'')
           else if cmd = ''/quit'' then send st conn (event ''Server'' ''Goodbye!'' ''system'')
           else
             send st conn
               (event ''Server'' ''Unknown command. Type /help for available commands.''
                  ''error'')))"

subsection \<open>The connection handler\<close>

text \<open>
  \<^verbatim>\<open>handle_client\<close> blocks in \<^verbatim>\<open>conn.recv\<close> at two places: line 69, waiting
  for the username (\<open>Handshaking\<close>), and line 100, in the receive loop (\<open>Active\<close>, with
  the local variable \<^verbatim>\<open>username\<close>). \<open>Closed\<close> is the handler after its
  \<^verbatim>\<open>finally\<close> block; \<open>Died\<close> is an exception leaving the \<^verbatim>\<open>finally\<close> block.
  What \<^verbatim>\<open>recv\<close> and \<^verbatim>\<open>decode\<close> deliver is \<open>Data s\<close>, with \<open>Data []\<close> the empty
  read of a closed peer, or \<open>Failed e\<close> when one of them raises.
\<close>

datatype phase = Handshaking | Active string | Closed | Died

datatype recv = Data string | Failed error

text \<open>\<^verbatim>\<open>if username:\<close> on a local that is \<^verbatim>\<open>None\<close> or a \<^verbatim>\<open>str\<close>.\<close>

fun truthy :: "string option \<Rightarrow> bool" where
  "truthy None = False"
| "truthy (Some s) = (s \<noteq> [])"

text \<open>The \<^verbatim>\<open>finally\<close> block, lines 121-130.\<close>

definition finally_block :: "state \<Rightarrow> conn \<Rightarrow> string option \<Rightarrow> state \<times> phase" where
  "finally_block st conn name =
     (if truthy name then
        (case remove_client st conn of
           Inl (e, st1) \<Rightarrow> (st1, Died)
         | Inr st1 \<Rightarrow>
             (case broadcast st1 (the name @ '' has left the chat.'') ''system'' None
                     ''message'' of
                Inl (e, st2) \<Rightarrow> (st2, Died)
              | Inr st2 \<Rightarrow> (close st2 conn, Closed)))
      else (close st conn, Closed))"

text \<open>Lines 63-66: the greeting sent to a fresh connection.\<close>

definition on_connect :: "state \<Rightarrow> conn \<Rightarrow> state \<times> phase" where
  "on_connect st conn =
     (case send st conn
             (event ''Server'' ''Welcome to the chat server! Enter your username:''
                ''system'') of
        Inl (e, st') \<Rightarrow> finally_block st' conn None
      | Inr st' \<Rightarrow> (st', Handshaking))"

text \<open>Line 78 and the test of line 79.\<close>

definition taken_usernames :: "state \<Rightarrow> string list" where
  "taken_usernames st = map (\<lambda>client. username client) (map snd (clients st))"

definition username_taken :: "state \<Rightarrow> string \<Rightarrow> bool" where
  "username_taken st name \<longleftrightarrow> name \<in> set (taken_usernames st) \<or> lower name = ''server''"

text \<open>
  Lines 80-82. Whether the send returns or raises, control reaches the \<^verbatim>\<open>finally\<close>
  block next, with \<^verbatim>\<open>username\<close> already assigned.
\<close>

definition reject :: "state \<Rightarrow> conn \<Rightarrow> state" where
  "reject st conn =
     (case send st conn
             (event ''Server'' ''Username already taken. Disconnecting...'' ''error'') of
        Inl (e, st') \<Rightarrow> st'
      | Inr st' \<Rightarrow> close st' conn)"

text \<open>Lines 85-86: \<^verbatim>\<open>self.clients[conn] = {'username': username, 'address': addr}\<close>.\<close>

definition add_client :: "state \<Rightarrow> conn \<Rightarrow> address \<Rightarrow> string \<Rightarrow> state" where
  "add_client st conn addr name =
     st\<lparr>clients := AList.update conn \<lparr>username = name, address = addr\<rparr> (clients st)\<rparr>"

datatype registration = Registered | UsernameTakenError

text \<open>Lines 76-86, run by one thread with no other thread in between.\<close>

definition try_register :: "state \<Rightarrow> conn \<Rightarrow> address \<Rightarrow> string \<Rightarrow> state \<times> registration" where
  "try_register st conn addr name =
     (if username_taken st name then (reject st conn, UsernameTakenError)
      else (add_client st conn addr name, Registered))"

text \<open>Lines 88-98: the join broadcast, the welcome, and the first test of the loop.\<close>

definition enter_chat :: "state \<Rightarrow> conn \<Rightarrow> string \<Rightarrow> state \<times> phase" where
  "enter_chat st conn name =
     (case broadcast st (name @ '' has joined the chat!'') ''system'' (Some conn) ''message'' of
        Inl (e, st1) \<Rightarrow> finally_block st1 conn (Some name)
      | Inr st1 \<Rightarrow>
          (case send st1 conn
                  (event ''Server''
                     (''Welcome '' @ name @ ''! Type '/help' for commands. Currently online: ''
                        @ repr_list (get_online_users st1))
                     ''welcome'') of
             Inl (e, st2) \<Rightarrow> finally_block st2 conn (Some name)
           | Inr st2 \<Rightarrow>
               if running st2 then (st2, Active name) else finally_block st2 conn (Some name)))"

text \<open>Lines 69-98: the handler from its first \<^verbatim>\<open>recv\<close> to its second.\<close>

definition on_username :: "state \<Rightarrow> conn \<Rightarrow> address \<Rightarrow> recv \<Rightarrow> state \<times> phase" where
  "on_username st conn addr r =
     (case r of
        Failed e \<Rightarrow> finally_block st conn None
      | Data username_data \<Rightarrow>
          if username_data = [] then finally_block (close st conn) conn None
          else
            (let name = strip username_data in
             case try_register st conn addr name of
               (st1, UsernameTakenError) \<Rightarrow> finally_block st1 conn (Some name)
             | (st1, Registered) \<Rightarrow> enter_chat st1 conn name))"

text \<open>
  One turn of the receive loop, lines 98-117, from the \<^verbatim>\<open>recv\<close> of line 100 to the
  next one: every exception of the body ends the loop.
\<close>

definition on_message :: "state \<Rightarrow> conn \<Rightarrow> string \<Rightarrow> recv \<Rightarrow> state \<times> phase" where
  "on_message st conn name r =
     (case r of
        Failed e \<Rightarrow> finally_block st conn (Some name)
      | Data message_data \<Rightarrow>
          if message_data = [] then finally_block st conn (Some name)
          else
            (let message = strip message_data in
             case (if startswith message ''/'' then handle_command st conn name message
                   else broadcast st message name None ''message'') of
               Inl (e, st') \<Rightarrow> finally_block st' conn (Some name)
             | Inr st' \<Rightarrow>
                 if running st' then (st', Active name) else finally_block st' conn (Some name)))"

text \<open>The handler on the list of what its \<^verbatim>\<open>recv\<close> calls deliver, in order.\<close>

fun run_client :: "state \<times> phase \<Rightarrow> conn \<Rightarrow> address \<Rightarrow> recv list \<Rightarrow> state \<times> phase" where
  "run_client (st, Handshaking) conn addr (r # rs) =
     run_client (on_username st conn addr r) conn addr rs"
| "run_client (st, Active name) conn addr (r # rs) =
     run_client (on_message st conn name r) conn addr rs"
| "run_client sp conn addr rs = sp"

definition handle_client :: "state \<Rightarrow> conn \<Rightarrow> address \<Rightarrow> recv list \<Rightarrow> state \<times> phase" where
  "handle_client st conn addr rs = run_client (on_connect st conn) conn addr rs"

subsection \<open>Handshakes of several threads\<close>

text \<open>
  The handshake takes \<^verbatim>\<open>self.client_lock\<close> twice: for the test of lines 77-82 and
  for the insertion of lines 85-86. Each \<^verbatim>\<open>with\<close> block is one atomic step of its
  thread; between the two the lock is free. A schedule names the thread that takes the
  next step.
\<close>

datatype pc = AtCheck | AtInsert | Done registration

record handshake =
  hs_conn :: conn
  hs_addr :: address
  hs_name :: string
  hs_pc :: pc

definition hs_step :: "state \<Rightarrow> handshake \<Rightarrow> state \<times> handshake" where
  "hs_step st h =
     (case hs_pc h of
        AtCheck \<Rightarrow>
          if username_taken st (hs_name h)
          then (reject st (hs_conn h), h\<lparr>hs_pc := Done UsernameTakenError\<rparr>)
          else (st, h\<lparr>hs_pc := AtInsert\<rparr>)
      | AtInsert \<Rightarrow>
          (add_client st (hs_conn h) (hs_addr h) (hs_name h), h\<lparr>hs_pc := Done Registered\<rparr>)
      | Done r \<Rightarrow> (st, h))"

fun run_schedule :: "state \<Rightarrow> handshake list \<Rightarrow> nat list \<Rightarrow> state \<times> handshake list" where
  "run_schedule st hs [] = (st, hs)"
| "run_schedule st hs (i # sched) =
     (if i < length hs
      then (case hs_step st (hs ! i) of (st', h') \<Rightarrow> run_schedule st' (hs[i := h']) sched)
      else run_schedule st hs sched)"

text \<open>The registry invariant of the data model: no username occurs twice.\<close>

definition unique_usernames :: "state \<Rightarrow> bool" where
  "unique_usernames st \<longleftrightarrow> distinct (taken_usernames st)"

subsection \<open>Example states\<close>

text \<open>
  A server with no client, and one with three clients on working connections, used to run
  the definitions on concrete inputs.
\<close>

definition clock0 :: datetime where
  "clock0 = \<lparr>year = 2024, month = 1, day = 2, hour = 3, minute = 4, second = 5\<rparr>"

definition clock1 :: datetime where
  "clock1 = \<lparr>year = 2024, month = 1, day = 2, hour = 3, minute = 4, second = 6\<rparr>"

definition alice :: client_info where
  "alice = \<lparr>username = ''alice'', address = (''127.0.0.1'', 50001)\<rparr>"

definition bob :: client_info where
  "bob = \<lparr>username = ''bob'', address = (''127.0.0.1'', 50002)\<rparr>"

definition carol :: client_info where
  "carol = \<lparr>username = ''carol'', address = (''127.0.0.1'', 50003)\<rparr>"

definition empty_server :: state where
  "empty_server =
     \<lparr>clients = [], running = True, sent = [], broken = {}, closed = {}, now = clock0\<rparr>"

definition lobby :: state where
  "lobby = empty_server\<lparr>clients := [(1, alice), (2, bob), (3, carol)]\<rparr>"

text \<open>Two handshakes, on two connections, that both ask for the username "bob".\<close>

definition racers :: "handshake list" where
  "racers =
     [\<lparr>hs_conn = 1, hs_addr = (''127.0.0.1'', 50001), hs_name = ''bob'', hs_pc = AtCheck\<rparr>,
      \<lparr>hs_conn = 2, hs_addr = (''127.0.0.1'', 50002), hs_name = ''bob'', hs_pc = AtCheck\<rparr>]"

section \<open>Properties\<close>

subsection \<open>Sends, removal and broadcast in closed form\<close>

lemma fails_sent [simp]: "fails (st\<lparr>sent := s\<rparr>) c = fails st c"
  by (simp add: fails_def)

lemma fails_clients [simp]: "fails (st\<lparr>clients := d\<rparr>) c = fails st c"
  by (simp add: fails_def)

text \<open>The guard of the removal keeps \<^verbatim>\<open>del\<close> from raising.\<close>

lemma remove_client_eq:
  "remove_client st c = Inr (st\<lparr>clients := AList.delete c (clients st)\<rparr>)"
proof (cases "c \<in> set (map fst (clients st))")
  case True
  then show ?thesis by (simp add: remove_client_def dict_del_def)
next
  case False
  then have "AList.delete c (clients st) = clients st"
    by (intro delete_id) simp
  with False show ?thesis by (simp add: remove_client_def)
qed

lemma state_upd_cong:
  "a = a' \<Longrightarrow> b = b' \<Longrightarrow> st\<lparr>clients := a, sent := b\<rparr> = st\<lparr>clients := a', sent := b'\<rparr>"
  by simp

text \<open>
  The loop never raises. It sends the event to the keys of the snapshot that are not
  excluded and whose send returns, in order, and removes the others that are not excluded.
\<close>

lemma broadcast_loop_eq:
  "broadcast_loop ks ev exclude st =
     Inr (st\<lparr>clients :=
               filter (\<lambda>p. \<not> (fst p \<in> set ks \<and> Some (fst p) \<noteq> exclude \<and> fails st (fst p)))
                 (clients st),
             sent := sent st @ map (\<lambda>c. (c, ev))
                       (filter (\<lambda>c. Some c \<noteq> exclude \<and> \<not> fails st c) ks)\<rparr>)"
proof (induction ks arbitrary: st)
  case Nil
  show ?case by simp
next
  case (Cons k ks)
  consider (skip) "Some k = exclude" | (ok) "Some k \<noteq> exclude" "\<not> fails st k"
    | (evict) "Some k \<noteq> exclude" "fails st k"
    by blast
  then show ?case
  proof cases
    case skip
    then show ?thesis
      by (auto simp: Cons.IH intro!: state_upd_cong filter_cong)
  next
    case ok
    then show ?thesis
      by (auto simp: send_def Cons.IH intro!: state_upd_cong filter_cong)
  next
    case evict
    then show ?thesis
      by (auto simp: send_def remove_client_eq Cons.IH AList.delete_eq
          intro!: state_upd_cong filter_cong)
  qed
qed

lemma broadcast_eq:
  "broadcast st message sender exclude msg_type =
     Inr (st\<lparr>clients :=
               filter (\<lambda>p. \<not> (Some (fst p) \<noteq> exclude \<and> fails st (fst p))) (clients st),
             sent := sent st @ map (\<lambda>c. (c, event sender message msg_type))
                       (filter (\<lambda>c. Some c \<noteq> exclude \<and> \<not> fails st c)
                          (map fst (clients st)))\<rparr>)"
  unfolding broadcast_def broadcast_loop_eq
  by (auto intro!: state_upd_cong filter_cong)

subsection \<open>Removal from the registry\<close>

text \<open>
  Claim C9. Removing a connection that is absent from the registry returns normally and
  leaves the state as it was; and after any removal the connection is absent, so that a
  second removal changes nothing. No removal raises.
\<close>

theorem remove_client_idempotent:
  "(conn \<notin> set (map fst (clients st)) \<longrightarrow> remove_client st conn = Inr st) \<and>
   (\<exists>st'. remove_client st conn = Inr st' \<and> conn \<notin> set (map fst (clients st'))
      \<and> remove_client st' conn = Inr st')"
proof (intro conjI impI)
  assume "conn \<notin> set (map fst (clients st))"
  then show "remove_client st conn = Inr st"
    by (simp add: remove_client_def)
next
  let ?st' = "st\<lparr>clients := AList.delete conn (clients st)\<rparr>"
  have absent: "conn \<notin> set (map fst (clients ?st'))"
    using delete_notin_dom [of conn "clients st"] by simp
  then have "remove_client ?st' conn = Inr ?st'"
    by (simp add: remove_client_def)
  with absent show "\<exists>st'. remove_client st conn = Inr st' \<and> conn \<notin> set (map fst (clients st'))
      \<and> remove_client st' conn = Inr st'"
    using remove_client_eq [of st conn] by blast
qed

theorem remove_client_idempotent_witness:
  "4 \<notin> set (map fst (clients lobby)) \<and> remove_client lobby 4 = Inr lobby"
  using remove_client_idempotent [of 4 lobby]
  by (simp add: lobby_def empty_server_def)

subsection \<open>Registration\<close>

lemma of_char_less_256: "(of_char c :: nat) < 256"
proof -
  have "(of_char c :: nat) mod 256 = of_char c" by simp
  then show ?thesis by (metis mod_less_divisor zero_less_numeral)
qed

lemma of_char_lower_char:
  "(of_char (lower_char c) :: nat) =
     (if (65 \<le> (of_char c :: nat) \<and> (of_char c :: nat) \<le> 90)
         \<or> (192 \<le> (of_char c :: nat) \<and> (of_char c :: nat) \<le> 222 \<and> (of_char c :: nat) \<noteq> 215)
      then of_char c + 32 else of_char c)"
  by (simp add: lower_char_def Let_def)

text \<open>The only characters that \<^verbatim>\<open>lower\<close> maps to an ASCII letter are its two cases.\<close>

lemma lower_char_eq_letter:
  assumes "(of_char l :: nat) = of_char u + 32"
    and "65 \<le> (of_char u :: nat)" and "(of_char u :: nat) \<le> 90"
  shows "lower_char c = l \<longleftrightarrow> c = l \<or> c = u"
proof -
  have "lower_char c = l \<longleftrightarrow> (of_char (lower_char c) :: nat) = of_char l"
    by simp
  also have "\<dots> \<longleftrightarrow> (of_char c :: nat) = of_char l \<or> (of_char c :: nat) = of_char u"
    using assms of_char_less_256 [of c] unfolding of_char_lower_char by auto
  also have "\<dots> \<longleftrightarrow> c = l \<or> c = u"
    by simp
  finally show ?thesis .
qed

lemma lower_server_iff:
  "lower name = ''server'' \<longleftrightarrow>
     list_all2 (\<lambda>c (l, u). c = l \<or> c = u) name (zip ''server'' ''SERVER'')"
proof -
  have s: "\<And>c. lower_char c = CHR ''s'' \<longleftrightarrow> c = CHR ''s'' \<or> c = CHR ''S''"
    by (rule lower_char_eq_letter) simp_all
  have e: "\<And>c. lower_char c = CHR ''e'' \<longleftrightarrow> c = CHR ''e'' \<or> c = CHR ''E''"
    by (rule lower_char_eq_letter) simp_all
  have r: "\<And>c. lower_char c = CHR ''r'' \<longleftrightarrow> c = CHR ''r'' \<or> c = CHR ''R''"
    by (rule lower_char_eq_letter) simp_all
  have v: "\<And>c. lower_char c = CHR ''v'' \<longleftrightarrow> c = CHR ''v'' \<or> c = CHR ''V''"
    by (rule lower_char_eq_letter) simp_all
  show ?thesis
    unfolding lower_def
    by (simp add: map_eq_Cons_conv list_all2_Cons2 s e r v)
qed

text \<open>
  Claim C8. The registration of lines 76-86 rejects a candidate exactly when it is, character
  for character, the username of a registered client, or when it is the word "server" with
  each letter in either case; and a rejection leaves the registry as it was.
\<close>

theorem try_register_rejects_iff:
  "(snd (try_register st conn addr name) = UsernameTakenError \<longleftrightarrow>
      name \<in> set (map (\<lambda>p. username (snd p)) (clients st))
      \<or> list_all2 (\<lambda>c (l, u). c = l \<or> c = u) name (zip ''server'' ''SERVER''))
   \<and> (snd (try_register st conn addr name) = UsernameTakenError \<longrightarrow>
        clients (fst (try_register st conn addr name)) = clients st)"
  unfolding try_register_def username_taken_def taken_usernames_def lower_server_iff
  by (auto simp: reject_def send_def close_def)

theorem try_register_rejects_iff_witness:
  "snd (try_register lobby 4 (''127.0.0.1'', 50004) ''SeRvEr'') = UsernameTakenError
   \<and> clients (fst (try_register lobby 4 (''127.0.0.1'', 50004) ''SeRvEr'')) = clients lobby"
  using try_register_rejects_iff [of lobby 4 "(''127.0.0.1'', 50004)" "''SeRvEr''"]
  by simp

subsection \<open>A username of whitespace\<close>

lemma map_of_filter_keeps:
  "(\<And>v. P (k, v)) \<Longrightarrow> map_of (filter P xs) k = map_of xs k"
  by (induction xs) auto

lemma strip_whitespace:
  assumes "\<forall>c\<in>set s. isspace c"
  shows "strip s = []"
proof -
  have d: "dropWhile isspace s = []"
    using assms by simp
  show ?thesis
    unfolding strip_def d by simp
qed

lemma clients_finally_block_unnamed [simp]:
  "clients (fst (finally_block st conn (Some []))) = clients st"
  by (simp add: finally_block_def close_def)

lemma enter_chat_keeps_self:
  "map_of (clients (fst (enter_chat st conn []))) conn = map_of (clients st) conn"
  by (auto simp: enter_chat_def broadcast_eq send_def map_of_filter_keeps split: sum.splits)

text \<open>
  Claim C10. When the first receive of the handshake delivers a non-empty text of whitespace
  only, and no registered client has the empty username, the text strips to the empty
  string, the registration succeeds with it, and when the handler reaches its next receive
  (or ends) the connection is in the registry under the empty username.
\<close>

theorem whitespace_username_registered:
  assumes "username_data \<noteq> []" and "\<forall>c\<in>set username_data. isspace c"
    and "[] \<notin> set (taken_usernames st)"
  shows "strip username_data = []
    \<and> try_register st conn addr (strip username_data) = (add_client st conn addr [], Registered)
    \<and> map_of (clients (fst (on_username st conn addr (Data username_data)))) conn
        = Some \<lparr>username = [], address = addr\<rparr>"
proof -
  have s: "strip username_data = []"
    using assms(2) by (rule strip_whitespace)
  have free: "\<not> username_taken st []"
    using assms(3) by (simp add: username_taken_def lower_def)
  then have r: "try_register st conn addr [] = (add_client st conn addr [], Registered)"
    by (simp add: try_register_def)
  have "on_username st conn addr (Data username_data)
      = enter_chat (add_client st conn addr []) conn []"
    using assms(1) by (simp add: on_username_def s r)
  then have "map_of (clients (fst (on_username st conn addr (Data username_data)))) conn
      = map_of (clients (add_client st conn addr [])) conn"
    by (simp add: enter_chat_keeps_self)
  also have "\<dots> = Some \<lparr>username = [], address = addr\<rparr>"
    by (simp add: add_client_def update_conv')
  finally show ?thesis using s r by simp
qed

theorem whitespace_username_registered_witness:
  "map_of (clients (fst (on_username lobby 4 (''127.0.0.1'', 50004)
      (Data ('' '' @ [CHR 0x09, CHR 0x0A]))))) 4
     = Some \<lparr>username = [], address = (''127.0.0.1'', 50004)\<rparr>"
  using whitespace_username_registered
    [of "'' '' @ [CHR 0x09, CHR 0x0A]" lobby 4 "(''127.0.0.1'', 50004)"]
  by (simp add: isspace_def taken_usernames_def lobby_def empty_server_def
      alice_def bob_def carol_def)

subsection \<open>Whisper\<close>

lemma find_target_None_iff:
  "find_target cl u = None \<longleftrightarrow> u \<notin> set (map (\<lambda>p. username (snd p)) cl)"
  by (induction cl u rule: find_target.induct) auto

lemma find_target_SomeD:
  "find_target cl u = Some c \<Longrightarrow> \<exists>info. (c, info) \<in> set cl \<and> username info = u"
  by (induction cl u rule: find_target.induct) (auto split: if_splits)

text \<open>
  Claim C5. A whisper from a connection whose writes succeed. If no registered client has the
  target username, or the search for it ends at the sender's own connection, the sender gets
  one error event and nothing else is sent. If the search ends at another connection, whose
  write succeeds, that connection gets one whisper event, the sender one system event, in
  this order, and nothing else is sent. The registry is the same afterwards in both cases.
  A username that is registered is always found, at a client that has it.
\<close>

theorem whisper_routing:
  assumes "\<not> fails st conn"
  shows "(target_user \<notin> set (taken_usernames st) \<or> find_target (clients st) target_user = Some conn \<longrightarrow>
            whisper st conn name target_user whisper_msg =
              Inr (st\<lparr>sent := sent st @
                [(conn, event ''Server''
                    (''User '' @ [CHR 0x27] @ target_user @ [CHR 0x27] @ '' not found or is yourself'')
                    ''error'')]\<rparr>))
       \<and> (find_target (clients st) target_user = Some target_conn \<and> target_conn \<noteq> conn
            \<and> \<not> fails st target_conn \<longrightarrow>
            whisper st conn name target_user whisper_msg =
              Inr (st\<lparr>sent := sent st @
                [(target_conn, event (''[Whisper from '' @ name @ '']'') whisper_msg ''whisper''),
                 (conn, event ''Server'' (''Whisper sent to '' @ target_user) ''system'')]\<rparr>))
       \<and> (target_user \<in> set (taken_usernames st) \<longrightarrow>
            (\<exists>c info. find_target (clients st) target_user = Some c \<and> (c, info) \<in> set (clients st)
               \<and> username info = target_user))"
proof (intro conjI impI)
  assume "target_user \<notin> set (taken_usernames st) \<or> find_target (clients st) target_user = Some conn"
  then consider "find_target (clients st) target_user = None"
    | "find_target (clients st) target_user = Some conn"
    by (auto simp: find_target_None_iff taken_usernames_def comp_def)
  then show "whisper st conn name target_user whisper_msg =
              Inr (st\<lparr>sent := sent st @
                [(conn, event ''Server''
                    (''User '' @ [CHR 0x27] @ target_user @ [CHR 0x27] @ '' not found or is yourself'')
                    ''error'')]\<rparr>)"
    using assms by cases (simp_all add: whisper_def send_def)
next
  assume "find_target (clients st) target_user = Some target_conn \<and> target_conn \<noteq> conn
            \<and> \<not> fails st target_conn"
  then show "whisper st conn name target_user whisper_msg =
              Inr (st\<lparr>sent := sent st @
                [(target_conn, event (''[Whisper from '' @ name @ '']'') whisper_msg ''whisper''),
                 (conn, event ''Server'' (''Whisper sent to '' @ target_user) ''system'')]\<rparr>)"
    using assms by (simp add: whisper_def send_def)
next
  assume "target_user \<in> set (taken_usernames st)"
  then have "find_target (clients st) target_user \<noteq> None"
    by (simp add: find_target_None_iff taken_usernames_def comp_def)
  then obtain c where "find_target (clients st) target_user = Some c"
    by blast
  then show "\<exists>c info. find_target (clients st) target_user = Some c \<and> (c, info) \<in> set (clients st)
               \<and> username info = target_user"
    using find_target_SomeD by fastforce
qed

theorem whisper_routing_witness:
  "\<not> fails lobby 1 \<and> find_target (clients lobby) ''bob'' = Some 2 \<and> \<not> fails lobby 2
   \<and> whisper lobby 1 ''alice'' ''bob'' ''hi'' =
       Inr (lobby\<lparr>sent :=
         [(2, event ''[Whisper from alice]'' ''hi'' ''whisper''),
          (1, event ''Server'' ''Whisper sent to bob'' ''system'')]\<rparr>)
   \<and> whisper lobby 1 ''alice'' ''dave'' ''hi'' =
       Inr (lobby\<lparr>sent :=
         [(1, event ''Server'' (''User '' @ [CHR 0x27] @ ''dave'' @ [CHR 0x27] @ '' not found or is yourself'') ''error'')]\<rparr>)"
  using whisper_routing [of lobby 1 "''bob''" "''alice''" "''hi''" 2]
    whisper_routing [of lobby 1 "''dave''" "''alice''" "''hi''" 2]
  by (simp add: fails_def lobby_def empty_server_def alice_def bob_def carol_def taken_usernames_def)


text \<open>The dispatcher hands a \<^verbatim>\<open>/whisper\<close> line with a target and a text to this branch.\<close>

lemma handle_command_whisper:
  assumes "split command = p # target_user # w # ws" and "lower p = ''/whisper''"
  shows "handle_command st conn name command =
           whisper st conn name target_user (join '' '' (w # ws))"
  using assms by (simp add: handle_command_def)

subsection \<open>Plain messages\<close>

lemma filter_eq_distinct:
  "distinct ks \<Longrightarrow> filter (\<lambda>k. k = c) ks = (if c \<in> set ks then [c] else [])"
  by (induction ks) auto

lemma received_append:
  "received (st\<lparr>clients := d, sent := sent st @ xs\<rparr>) c
     = received st c @ map snd (filter (\<lambda>p. fst p = c) xs)"
  by (simp add: received_def)

lemma deliveries_to:
  assumes "distinct ks"
  shows "map snd (filter (\<lambda>p. fst p = c) (map (\<lambda>k. (k, ev)) (filter P ks)))
           = (if c \<in> set ks \<and> P c then [ev] else [])"
proof -
  have "filter (\<lambda>p. fst p = c) (map (\<lambda>k. (k, ev)) (filter P ks))
          = map (\<lambda>k. (k, ev)) (filter P (filter (\<lambda>k. k = c) ks))"
    by (simp add: filter_map comp_def conj_commute)
  then show ?thesis
    using assms by (simp add: filter_eq_distinct)
qed

text \<open>
  Claim C2, as the code has it. While the server runs, a plain message of an active
  connection is broadcast with \<^verbatim>\<open>exclude=None\<close>: every registered connection whose write
  succeeds is sent the message event once, with the sender's username as sender and type
  "message"; that includes the sender's own connection. No other connection is sent
  anything, and the handler stays in its loop.
\<close>

theorem plain_message_delivery:
  assumes "running st" and "distinct (map fst (clients st))"
    and "message_data \<noteq> []" and "\<not> startswith (strip message_data) ''/''"
  shows "\<exists>st'. on_message st conn name (Data message_data) = (st', Active name)
     \<and> (\<forall>c. received st' c = received st c @
            (if c \<in> set (map fst (clients st)) \<and> \<not> fails st c
             then [event name (strip message_data) ''message''] else []))"
proof -
  let ?ev = "event name (strip message_data) ''message''"
  let ?st' = "st\<lparr>clients := filter (\<lambda>p. \<not> (Some (fst p) \<noteq> None \<and> fails st (fst p))) (clients st),
                 sent := sent st @ map (\<lambda>c. (c, ?ev))
                   (filter (\<lambda>c. Some c \<noteq> None \<and> \<not> fails st c) (map fst (clients st)))\<rparr>"
  have "on_message st conn name (Data message_data) = (?st', Active name)"
    using assms(1,3,4) by (simp add: on_message_def broadcast_eq)
  moreover have "received ?st' c = received st c @
            (if c \<in> set (map fst (clients st)) \<and> \<not> fails st c then [?ev] else [])" for c
  proof -
    have "received ?st' c = received st c @ map snd (filter (\<lambda>p. fst p = c)
            (map (\<lambda>c. (c, ?ev))
               (filter (\<lambda>c. Some c \<noteq> None \<and> \<not> fails st c) (map fst (clients st)))))"
      by (rule received_append)
    also have "map snd (filter (\<lambda>p. fst p = c)
            (map (\<lambda>c. (c, ?ev))
               (filter (\<lambda>c. Some c \<noteq> None \<and> \<not> fails st c) (map fst (clients st)))))
          = (if c \<in> set (map fst (clients st)) \<and> (Some c \<noteq> None \<and> \<not> fails st c)
             then [?ev] else [])"
      by (rule deliveries_to [OF assms(2)])
    finally show ?thesis by simp
  qed
  ultimately show ?thesis by blast
qed

lemma strip_hello: "strip ''hello'' = ''hello''"
  by (simp add: strip_def isspace_def)

theorem plain_message_delivery_witness:
  "running lobby \<and> distinct (map fst (clients lobby)) \<and> \<not> startswith (strip ''hello'') ''/''
   \<and> (\<exists>st'. on_message lobby 1 ''alice'' (Data ''hello'') = (st', Active ''alice'')
        \<and> received st' 1 = [event ''alice'' ''hello'' ''message'']
        \<and> received st' 2 = [event ''alice'' ''hello'' ''message'']
        \<and> received st' 3 = [event ''alice'' ''hello'' ''message'']
        \<and> received st' 4 = [])"
proof -
  have h: "running lobby" "distinct (map fst (clients lobby))" "''hello'' \<noteq> []"
    "\<not> startswith (strip ''hello'') ''/''"
    by (simp_all add: strip_hello startswith_def lobby_def empty_server_def)
  from plain_message_delivery [OF h, of 1 "''alice''"]
  obtain st' where a: "on_message lobby 1 ''alice'' (Data ''hello'') = (st', Active ''alice'')"
    and b: "\<And>c. received st' c = received lobby c @
            (if c \<in> set (map fst (clients lobby)) \<and> \<not> fails lobby c
             then [event ''alice'' (strip ''hello'') ''message''] else [])"
    by blast
  have "received st' 1 = [event ''alice'' ''hello'' ''message'']"
    and "received st' 2 = [event ''alice'' ''hello'' ''message'']"
    and "received st' 3 = [event ''alice'' ''hello'' ''message'']"
    and "received st' 4 = []"
    unfolding b
    by (simp_all add: strip_hello lobby_def empty_server_def fails_def received_def)
  with a h show ?thesis by blast
qed

text \<open>
  Claim C2 as stated fails: with alice, bob and carol registered, alice's plain message
  "hello" comes back to alice's own connection.
\<close>

theorem sender_gets_own_message:
  "received lobby 1 = []
   \<and> received (fst (on_message lobby 1 ''alice'' (Data ''hello''))) 1
       = [event ''alice'' ''hello'' ''message'']"
  by (simp add: on_message_def strip_hello startswith_def broadcast_eq lobby_def empty_server_def
      fails_def received_def Let_def)

subsection \<open>The wire codec\<close>

lemma of_char_digit: "(of_char (digit n) :: nat) = 48 + n mod 10"
proof -
  have "(48 + n mod 10) mod 256 = 48 + n mod 10"
    by (rule mod_less) (simp add: less_le_trans [OF add_strict_left_mono [OF mod_less_divisor]])
  then show ?thesis by (simp add: digit_def)
qed

lemma json_escape_plain:
  assumes "32 \<le> (of_char c :: nat)" and "(of_char c :: nat) \<le> 126"
    and "(of_char c :: nat) \<noteq> 34" and "(of_char c :: nat) \<noteq> 92"
  shows "json_escape_char c = [c]"
proof -
  have "c \<noteq> CHR 0x22" and "c \<noteq> CHR 0x5C"
    using assms(3,4) by auto
  then show ?thesis
    using assms(1,2) by (simp add: json_escape_char_def Let_def)
qed

lemma json_escape_digit [simp]: "json_escape_char (digit n) = [digit n]"
  by (rule json_escape_plain) (simp_all add: of_char_digit)

lemma json_escape_colon [simp]: "json_escape_char (CHR '':'') = '':''"
  by (rule json_escape_plain) simp_all

lemma json_string_timestamp:
  \<open>json_string (get_timestamp t) = [CHR 0x22] @ get_timestamp t @ [CHR 0x22]\<close>
  by (simp add: json_string_def get_timestamp_def two_digits_def)

lemma digit_eq_iff: "digit m = digit n \<longleftrightarrow> m mod 10 = n mod 10"
proof -
  have "digit m = digit n \<longleftrightarrow> (of_char (digit m) :: nat) = of_char (digit n)"
    by simp
  then show ?thesis
    unfolding of_char_digit by simp
qed

lemma two_digits_eq_iff:
  assumes "m < 100" and "n < 100"
  shows "two_digits m = two_digits n \<longleftrightarrow> m = n"
proof
  assume "two_digits m = two_digits n"
  then have a: "m div 10 mod 10 = n div 10 mod 10" and b: "m mod 10 = n mod 10"
    by (simp_all add: two_digits_def digit_eq_iff)
  have "m div 10 < 10" and "n div 10 < 10"
    using assms by simp_all
  with a have "m div 10 = n div 10"
    by simp
  with b show "m = n"
    by (metis div_mult_mod_eq)
next
  assume "m = n"
  then show "two_digits m = two_digits n" by simp
qed

lemma get_timestamp_eq_iff:
  assumes "hour a < 24" "minute a < 60" "second a < 60"
    and "hour b < 24" "minute b < 60" "second b < 60"
  shows "get_timestamp a = get_timestamp b \<longleftrightarrow>
           hour a = hour b \<and> minute a = minute b \<and> second a = second b"
proof -
  have "get_timestamp a = get_timestamp b \<longleftrightarrow>
          two_digits (hour a) = two_digits (hour b) \<and> two_digits (minute a) = two_digits (minute b)
          \<and> two_digits (second a) = two_digits (second b)"
    by (simp add: get_timestamp_def two_digits_def)
  then show ?thesis
    using assms by (simp add: two_digits_eq_iff)
qed



text \<open>The bytes of an event: a JSON object of the four fields, in this order.\<close>

lemma encode_message_shape:
  \<open>encode_message t sender message msg_type =
     ''{"timestamp": "'' @ get_timestamp t @ ''", "sender": '' @ json_string sender
       @ '', "message": '' @ json_string message @ '', "type": '' @ json_string msg_type @ ''}''\<close>
proof -
  have ts: "json_string ''timestamp'' = [CHR 0x22] @ ''timestamp'' @ [CHR 0x22]"
    and se: "json_string ''sender'' = [CHR 0x22] @ ''sender'' @ [CHR 0x22]"
    and me: "json_string ''message'' = [CHR 0x22] @ ''message'' @ [CHR 0x22]"
    and ty: "json_string ''type'' = [CHR 0x22] @ ''type'' @ [CHR 0x22]"
    by (simp_all add: json_string_def json_escape_char_def)
  show ?thesis
    by (simp add: encode_message_def json_dumps_def ts se me ty json_string_timestamp)
qed

text \<open>
  Claim C7, as the code has it. \<^verbatim>\<open>encode_message\<close> takes and returns no server state; it
  reads the clock. Its result is the JSON object of the four fields timestamp, sender,
  message and type, and for the same sender, message and type two calls give the same
  bytes exactly when their clock readings agree in hour, minute and second.
\<close>

theorem encode_message_reads_clock:
  assumes "hour a < 24" "minute a < 60" "second a < 60"
    and "hour b < 24" "minute b < 60" "second b < 60"
  shows \<open>encode_message a sender message msg_type =
     ''{"timestamp": "'' @ get_timestamp a @ ''", "sender": '' @ json_string sender
       @ '', "message": '' @ json_string message @ '', "type": '' @ json_string msg_type @ ''}''
    \<and> (encode_message a sender message msg_type = encode_message b sender message msg_type
        \<longleftrightarrow> hour a = hour b \<and> minute a = minute b \<and> second a = second b)\<close>
proof -
  have "encode_message a sender message msg_type = encode_message b sender message msg_type
        \<longleftrightarrow> get_timestamp a = get_timestamp b"
    unfolding encode_message_shape by simp
  then show ?thesis
    using get_timestamp_eq_iff [OF assms] encode_message_shape by simp
qed

theorem encode_message_reads_clock_witness:
  "hour clock0 < 24 \<and> minute clock0 < 60 \<and> second clock0 < 60
   \<and> hour clock1 < 24 \<and> minute clock1 < 60 \<and> second clock1 < 60
   \<and> encode_message clock0 ''alice'' ''hi'' ''message''
       \<noteq> encode_message clock1 ''alice'' ''hi'' ''message''"
proof -
  have h: "hour clock0 < 24" "minute clock0 < 60" "second clock0 < 60"
    "hour clock1 < 24" "minute clock1 < 60" "second clock1 < 60"
    by (simp_all add: clock0_def clock1_def)
  from encode_message_reads_clock [OF h, of "''alice''" "''hi''" "''message''"]
  have "encode_message clock0 ''alice'' ''hi'' ''message''
        = encode_message clock1 ''alice'' ''hi'' ''message''
      \<longleftrightarrow> hour clock0 = hour clock1 \<and> minute clock0 = minute clock1
          \<and> second clock0 = second clock1"
    by (rule conjunct2)
  moreover have "second clock0 \<noteq> second clock1"
    by (simp add: clock0_def clock1_def)
  ultimately have "encode_message clock0 ''alice'' ''hi'' ''message''
       \<noteq> encode_message clock1 ''alice'' ''hi'' ''message''"
    by blast
  with h show ?thesis by simp
qed

text \<open>
  Claim C7 as stated fails: the same three arguments encoded one second apart give
  different bytes.
\<close>

theorem encode_message_differs_by_clock:
  "encode_message clock0 ''Server'' ''Goodbye!'' ''system''
     \<noteq> encode_message clock1 ''Server'' ''Goodbye!'' ''system''"
  by code_simp

subsection \<open>Racing handshakes\<close>

text \<open>
  Run with no other thread in between, the two steps of a handshake are the registration
  \<^const>\<open>try_register\<close>, which keeps the usernames of the registry distinct.
\<close>

lemma hs_step_sequential:
  assumes "hs_pc h = AtCheck"
  shows "(case hs_step st h of (st1, h1) \<Rightarrow> hs_step st1 h1) =
           (fst (try_register st (hs_conn h) (hs_addr h) (hs_name h)),
            h\<lparr>hs_pc := Done (snd (try_register st (hs_conn h) (hs_addr h) (hs_name h)))\<rparr>)"
  using assms by (simp add: hs_step_def try_register_def)

lemma update_fresh:
  "k \<notin> set (map fst al) \<Longrightarrow> AList.update k v al = al @ [(k, v)]"
  by (induction al) auto

lemma taken_usernames_add_client:
  assumes "conn \<notin> set (map fst (clients st))"
  shows "taken_usernames (add_client st conn addr name) = taken_usernames st @ [name]"
  unfolding taken_usernames_def add_client_def
  by (simp add: update_fresh [OF assms])

lemma try_register_unique:
  assumes "unique_usernames st" and "conn \<notin> set (map fst (clients st))"
  shows "unique_usernames (fst (try_register st conn addr name))"
proof (cases "username_taken st name")
  case True
  then have "clients (fst (try_register st conn addr name)) = clients st"
    by (simp add: try_register_def reject_def send_def close_def)
  with assms(1) show ?thesis
    by (simp add: unique_usernames_def taken_usernames_def)
next
  case False
  then have "name \<notin> set (taken_usernames st)"
    by (simp add: username_taken_def)
  with False assms show ?thesis
    by (simp add: try_register_def unique_usernames_def taken_usernames_add_client)
qed

text \<open>
  Claim C1 on the code. Two handshakes ask for "bob" on an empty server. When both run their
  test before either runs its insertion (the lock is free between the two \<^verbatim>\<open>with\<close>
  blocks), both are registered: the registry holds two clients named "bob", and neither
  connection was rejected.
\<close>

theorem racing_handshakes_both_registered:
  "run_schedule empty_server racers [0, 1, 0, 1] =
     (empty_server\<lparr>clients :=
        [(1, \<lparr>username = ''bob'', address = (''127.0.0.1'', 50001)\<rparr>),
         (2, \<lparr>username = ''bob'', address = (''127.0.0.1'', 50002)\<rparr>)]\<rparr>,
      map (\<lambda>h. h\<lparr>hs_pc := Done Registered\<rparr>) racers)
   \<and> \<not> unique_usernames (fst (run_schedule empty_server racers [0, 1, 0, 1]))"
proof -
  have l: "lower ''bob'' \<noteq> ''server''"
    by (simp add: lower_def)
  have r: "run_schedule empty_server racers [0, 1, 0, 1] =
     (empty_server\<lparr>clients :=
        [(1, \<lparr>username = ''bob'', address = (''127.0.0.1'', 50001)\<rparr>),
         (2, \<lparr>username = ''bob'', address = (''127.0.0.1'', 50002)\<rparr>)]\<rparr>,
      map (\<lambda>h. h\<lparr>hs_pc := Done Registered\<rparr>) racers)"
    by (simp add: racers_def empty_server_def hs_step_def username_taken_def taken_usernames_def
        add_client_def l)
  show ?thesis
    unfolding r by (simp add: unique_usernames_def taken_usernames_def)
qed

text \<open>When each handshake runs its two steps together, the second one is rejected.\<close>

lemma atomic_handshakes_one_registered:
  "snd (run_schedule empty_server racers [0, 0, 1, 1]) =
     [(racers ! 0)\<lparr>hs_pc := Done Registered\<rparr>, (racers ! 1)\<lparr>hs_pc := Done UsernameTakenError\<rparr>]
   \<and> clients (fst (run_schedule empty_server racers [0, 0, 1, 1])) =
       [(1, \<lparr>username = ''bob'', address = (''127.0.0.1'', 50001)\<rparr>)]"
proof -
  have l: "lower ''bob'' \<noteq> ''server''"
    by (simp add: lower_def)
  show ?thesis
    by (simp add: racers_def empty_server_def hs_step_def username_taken_def taken_usernames_def
        add_client_def reject_def send_def close_def fails_def l)
qed

subsection \<open>The end of a connection\<close>

lemma strip_alice: "strip ''alice'' = ''alice''"
  by (simp add: strip_def isspace_def)

text \<open>
  Claim C3 on the code. With alice, bob and carol registered, a fourth connection asks for
  "alice". It is sent the error event and closed, and the \<^verbatim>\<open>finally\<close> block, whose test
  \<^verbatim>\<open>if username:\<close> holds because the local was assigned before the registration test,
  broadcasts "alice has left the chat." to the three registered clients.
\<close>

theorem rejected_handshake_departure_broadcast:
  "on_username lobby 4 (''127.0.0.1'', 50004) (Data ''alice'') =
     (lobby\<lparr>sent :=
         [(4, event ''Server'' ''Username already taken. Disconnecting...'' ''error''),
          (1, event ''system'' ''alice has left the chat.'' ''message''),
          (2, event ''system'' ''alice has left the chat.'' ''message''),
          (3, event ''system'' ''alice has left the chat.'' ''message'')],
        closed := {4}\<rparr>,
      Closed)"
  by (simp add: on_username_def strip_alice try_register_def username_taken_def
      taken_usernames_def reject_def send_def fails_def close_def finally_block_def
      remove_client_eq broadcast_eq lobby_def empty_server_def alice_def bob_def carol_def)

lemma split_whisper: "split ''/whisper bob hi'' = [''/whisper'', ''bob'', ''hi'']"
  by (simp add: split_def isspace_def)

lemma strip_whisper: "strip ''/whisper bob hi'' = ''/whisper bob hi''"
  by (simp add: strip_def isspace_def)

lemma lower_whisper: "lower ''/whisper'' = ''/whisper''"
  by (simp add: lower_def lower_char_def)

text \<open>
  Claim C4 on the code. With alice, bob and carol registered and bob's connection broken,
  alice whispers to bob. The send to bob raises inside \<^verbatim>\<open>handle_command\<close>, which has no
  handler for it; alice's receive loop ends, alice is removed and closed, and the departure
  broadcast, not the whisper, is what removes bob.
\<close>

theorem whisper_to_broken_target_ends_sender:
  "on_message (lobby\<lparr>broken := {2}\<rparr>) 1 ''alice'' (Data ''/whisper bob hi'') =
     (lobby\<lparr>clients := [(3, carol)],
            sent := [(3, event ''system'' ''alice has left the chat.'' ''message'')],
            broken := {2}, closed := {1}\<rparr>,
      Closed)"
  by (simp add: on_message_def strip_whisper startswith_def handle_command_def split_whisper
      lower_whisper whisper_def send_def fails_def close_def finally_block_def
      remove_client_eq broadcast_eq lobby_def empty_server_def alice_def bob_def carol_def)

lemma split_quit: "split ''/quit'' = [''/quit'']"
  by (simp add: split_def isspace_def)

lemma strip_quit: "strip ''/quit'' = ''/quit''"
  by (simp add: strip_def isspace_def)

lemma lower_quit: "lower ''/quit'' = ''/quit''"
  by (simp add: lower_def lower_char_def)

text \<open>
  On \<^verbatim>\<open>/quit\<close> the dispatcher sends the farewell and returns; the loop goes on to its
  next receive.
\<close>

lemma quit_keeps_session:
  assumes "running st" and "\<not> fails st conn"
  shows "on_message st conn name (Data ''/quit'') =
           (st\<lparr>sent := sent st @ [(conn, event ''Server'' ''Goodbye!'' ''system'')]\<rparr>, Active name)"
  using assms
  by (simp add: on_message_def strip_quit startswith_def handle_command_def split_quit
      lower_quit send_def)

lemma strip_again: "strip ''again'' = ''again''"
  by (simp add: strip_def isspace_def)

text \<open>
  Claim C6 on the code. Alice sends \<^verbatim>\<open>/quit\<close> and keeps the connection open. She is sent
  the farewell, stays in the registry with her handler in its loop, and no departure is
  broadcast; a plain message she sends next is relayed to everyone.
\<close>

theorem quit_then_message_still_relayed:
  "on_message lobby 1 ''alice'' (Data ''/quit'') =
     (lobby\<lparr>sent := [(1, event ''Server'' ''Goodbye!'' ''system'')]\<rparr>, Active ''alice'')
   \<and> run_client (lobby, Active ''alice'') 1 (''127.0.0.1'', 50001) [Data ''/quit'', Data ''again''] =
     (lobby\<lparr>sent :=
         [(1, event ''Server'' ''Goodbye!'' ''system''),
          (1, event ''alice'' ''again'' ''message''),
          (2, event ''alice'' ''again'' ''message''),
          (3, event ''alice'' ''again'' ''message'')]\<rparr>,
      Active ''alice'')"
proof -
  have q: "on_message lobby 1 ''alice'' (Data ''/quit'') =
     (lobby\<lparr>sent := [(1, event ''Server'' ''Goodbye!'' ''system'')]\<rparr>, Active ''alice'')"
    using quit_keeps_session [of lobby 1 "''alice''"]
    by (simp add: lobby_def empty_server_def fails_def)
  have m: "on_message (lobby\<lparr>sent := [(1, event ''Server'' ''Goodbye!'' ''system'')]\<rparr>) 1 ''alice''
             (Data ''again'') =
     (lobby\<lparr>sent :=
         [(1, event ''Server'' ''Goodbye!'' ''system''),
          (1, event ''alice'' ''again'' ''message''),
          (2, event ''alice'' ''again'' ''message''),
          (3, event ''alice'' ''again'' ''message'')]\<rparr>,
      Active ''alice'')"
    by (simp add: on_message_def strip_again startswith_def broadcast_eq fails_def
        lobby_def empty_server_def Let_def)
  show ?thesis
    unfolding run_client.simps q m by simp
qed


text \<open>
  A client registered under the empty username is not removed when its handler ends: the
  test \<^verbatim>\<open>if username:\<close> of the \<^verbatim>\<open>finally\<close> block fails for it.
\<close>

lemma finally_block_unnamed:
  "finally_block st conn (Some []) = (close st conn, Closed)"
  by (simp add: finally_block_def)

end
